theory Spec2Isabelle
  imports Complex_Main "HOL-Library.Log_Nat"
begin

section \<open>Numbers\<close>

text \<open>
  The program computes with JavaScript numbers, which are IEEE 754 doubles.  A finite
  number is modelled by the rational it denotes, and the three special values that
  arithmetic can produce, and that no exception accompanies, are kept apart.  There is
  one zero: the sign of a zero is not modelled.

  A sum, a product or a quotient is the exact result rounded to the nearest double, ties
  to the even significand.  \<open>dbl x\<close> is that rounding: with \<open>e\<close> the binary exponent of
  \<open>x\<close>, the result is a multiple of \<open>2 ^ (e - 52)\<close>, or of \<open>2 ^ -1074\<close> in the subnormal
  range, and a result of \<open>2 ^ 1024\<close> or more is an infinity.
\<close>

datatype jsnum = Fin rat | PosInf | NegInf | NaN

definition js_inf :: "bool \<Rightarrow> jsnum" where
  "js_inf positive = (if positive then PosInf else NegInf)"

definition pow2 :: "int \<Rightarrow> rat" where
  "pow2 e = (if 0 \<le> e then 2 ^ nat e else 1 / 2 ^ nat (- e))"

text \<open>The binary exponent of a positive rational: the \<open>k\<close> with \<open>2 ^ k \<le> x < 2 ^ (k + 1)\<close>,
  found from the bit lengths of numerator and denominator.\<close>

definition ilog2 :: "rat \<Rightarrow> int" where
  "ilog2 x =
     (let (n, d) = quotient_of x;
          k = bitlen n - bitlen d
      in if pow2 k \<le> x then k else k - 1)"

definition round_half_even :: "rat \<Rightarrow> int" where
  "round_half_even r =
     (let f = \<lfloor>r\<rfloor>;
          t = r - of_int f
      in if t < 1 / 2 then f
         else if 1 / 2 < t then f + 1
         else if even f then f else f + 1)"

text \<open>For a significand \<open>m\<close> and an exponent \<open>q\<close>, \<open>m * 2 ^ q\<close> reaches \<open>2 ^ 1024\<close> exactly when
  \<open>bitlen m + q\<close> exceeds 1024.\<close>

definition dbl :: "rat \<Rightarrow> jsnum" where
  "dbl x =
     (if x = 0 then Fin 0
      else
        (let e = ilog2 \<bar>x\<bar>;
             q = max (e - 52) (- 1074);
             m = round_half_even (\<bar>x\<bar> / pow2 q);
             y = of_int m * pow2 q
         in if 1024 < bitlen m + q then js_inf (0 < x)
            else Fin (if 0 < x then y else - y)))"

fun js_neg :: "jsnum \<Rightarrow> jsnum" where
  "js_neg (Fin a) = Fin (- a)"
| "js_neg PosInf = NegInf"
| "js_neg NegInf = PosInf"
| "js_neg NaN = NaN"

fun js_add :: "jsnum \<Rightarrow> jsnum \<Rightarrow> jsnum" where
  "js_add NaN _ = NaN"
| "js_add _ NaN = NaN"
| "js_add (Fin a) (Fin b) = dbl (a + b)"
| "js_add PosInf NegInf = NaN"
| "js_add NegInf PosInf = NaN"
| "js_add PosInf _ = PosInf"
| "js_add NegInf _ = NegInf"
| "js_add (Fin a) y = y"

definition js_sub :: "jsnum \<Rightarrow> jsnum \<Rightarrow> jsnum" where
  "js_sub x y = js_add x (js_neg y)"

text \<open>The sign of a number: \<open>Some True\<close> for positive, \<open>Some False\<close> for negative,
  \<open>None\<close> for zero and for \<open>NaN\<close>.\<close>

fun js_sign :: "jsnum \<Rightarrow> bool option" where
  "js_sign (Fin a) = (if a = 0 then None else Some (0 < a))"
| "js_sign PosInf = Some True"
| "js_sign NegInf = Some False"
| "js_sign NaN = None"

fun js_mul :: "jsnum \<Rightarrow> jsnum \<Rightarrow> jsnum" where
  "js_mul NaN _ = NaN"
| "js_mul _ NaN = NaN"
| "js_mul (Fin a) (Fin b) = dbl (a * b)"
| "js_mul x y =
     (case (js_sign x, js_sign y) of
        (Some s, Some t) \<Rightarrow> js_inf (s = t)
      | _ \<Rightarrow> NaN)"

text \<open>Division never raises: a zero divisor gives \<open>NaN\<close> for a zero dividend and an
  infinity otherwise.\<close>

fun js_div :: "jsnum \<Rightarrow> jsnum \<Rightarrow> jsnum" where
  "js_div NaN _ = NaN"
| "js_div _ NaN = NaN"
| "js_div (Fin a) (Fin b) =
     (if b = 0 then (if a = 0 then NaN else js_inf (0 < a)) else dbl (a / b))"
| "js_div (Fin a) _ = Fin 0"
| "js_div x (Fin b) = (case js_sign x of Some s \<Rightarrow> js_inf (s = (0 \<le> b)) | None \<Rightarrow> NaN)"
| "js_div _ _ = NaN"

text \<open>The comparison \<open>x >= y\<close>: false as soon as an operand is \<open>NaN\<close>.\<close>

fun js_ge :: "jsnum \<Rightarrow> jsnum \<Rightarrow> bool" where
  "js_ge NaN _ = False"
| "js_ge _ NaN = False"
| "js_ge (Fin a) (Fin b) = (b \<le> a)"
| "js_ge PosInf _ = True"
| "js_ge _ NegInf = True"
| "js_ge _ _ = False"

section \<open>Configuration (config/constants.ts)\<close>

text \<open>
  \<open>MIN_BUY_VALUE_USD\<close> and \<open>MAX_TOKEN_AGE_MINUTES\<close> are read from the environment when
  the process starts, so they are parameters of the model; \<open>default_config\<close> holds the
  values used when the environment sets nothing.
\<close>

record config =
  MIN_BUY_VALUE_USD :: jsnum
  MAX_TOKEN_AGE_MINUTES :: int

definition default_config :: config where
  "default_config = \<lparr>MIN_BUY_VALUE_USD = Fin 1000, MAX_TOKEN_AGE_MINUTES = 60\<rparr>"

definition WRAPPED_SOL :: string where
  "WRAPPED_SOL = ''So11111111111111111111111111111111111111112''"

definition USDC_MINT :: string where
  "USDC_MINT = ''EPjFWdd5AufqSSqeM2qN1xzybapC8G4wEGGkZwyTDt1v''"

definition USDT_MINT :: string where
  "USDT_MINT = ''Es9vMFrzaCERmJfrF4H2FYD4KCoNkY11McCe8BenwNYB''"

section \<open>Notification filters (utils/filters.ts)\<close>

definition shouldNotifyBuy :: "config \<Rightarrow> jsnum \<Rightarrow> bool" where
  "shouldNotifyBuy cfg transactionValueUsd =
     js_ge transactionValueUsd (MIN_BUY_VALUE_USD cfg)"

definition shouldNotifySell :: bool where
  "shouldNotifySell = True"

section \<open>Transactions and the swap parser (types/index.ts, services/parser.ts)\<close>

text \<open>
  The account fields of a transfer are read through optional chaining, so they may be
  absent.  \<open>transactionError\<close> is \<open>null\<close> or an error object; an object is truthy.
  Timestamps are whole seconds since the epoch.
\<close>

record HeliusTokenTransfer =
  fromUserAccount :: "string option"
  toUserAccount :: "string option"
  mint :: string
  tokenAmount :: jsnum

record HeliusNativeTransfer =
  nt_fromUserAccount :: "string option"
  nt_toUserAccount :: "string option"
  nt_amount :: jsnum

record HeliusTransaction =
  tx_type :: string
  signature :: string
  timestamp :: int
  tokenTransfers :: "HeliusTokenTransfer list"
  nativeTransfers :: "HeliusNativeTransfer list"
  transactionError :: "string option"

datatype direction = Buy | Sell

record ParsedTokenTransfer =
  p_type :: direction
  p_tokenMint :: string
  p_tokenSymbol :: string
  p_tokenName :: string
  p_amount :: jsnum
  p_priceUsd :: jsnum
  p_valueUsd :: jsnum
  p_signature :: string
  p_timestamp :: int

text \<open>\<open>String.prototype.toLowerCase\<close> on the ASCII letters (addresses are base58 text):
  a letter from \<open>A\<close> (65) to \<open>Z\<close> (90) moves up by 32, which sets the bit of weight 32.\<close>

definition toLowerChar :: "char \<Rightarrow> char" where
  "toLowerChar c =
     (let n = (of_char c :: nat) in
      if 65 \<le> n \<and> n \<le> 90
      then (case c of Char b0 b1 b2 b3 b4 b5 b6 b7 \<Rightarrow> Char b0 b1 b2 b3 b4 True b6 b7)
      else c)"

definition toLowerCase :: "string \<Rightarrow> string" where
  "toLowerCase s = map toLowerChar s"

text \<open>\<open>account?.toLowerCase() === walletAddress.toLowerCase()\<close>\<close>

definition sameAccount :: "string option \<Rightarrow> string \<Rightarrow> bool" where
  "sameAccount account walletAddress =
     (case account of None \<Rightarrow> False | Some a \<Rightarrow> toLowerCase a = toLowerCase walletAddress)"

text \<open>The first loop of \<open>parseSwapTransaction\<close>: the result is \<open>(isBuy, tokenTransfer)\<close>,
  or \<open>None\<close> when the loop ends with \<open>tokenTransfer\<close> still \<open>null\<close>.\<close>

fun findTokenTransfer :: "string \<Rightarrow> HeliusTokenTransfer list \<Rightarrow> (bool \<times> HeliusTokenTransfer) option" where
  "findTokenTransfer walletAddress [] = None"
| "findTokenTransfer walletAddress (transfer # rest) =
     (if mint transfer = WRAPPED_SOL then findTokenTransfer walletAddress rest
      else if sameAccount (toUserAccount transfer) walletAddress then Some (True, transfer)
      else if sameAccount (fromUserAccount transfer) walletAddress then Some (False, transfer)
      else findTokenTransfer walletAddress rest)"

text \<open>The three loops of \<open>calculateUSDValue\<close>; each gives \<open>None\<close> when it falls through.\<close>

fun stablecoinValue :: "string \<Rightarrow> bool \<Rightarrow> HeliusTokenTransfer list \<Rightarrow> jsnum option" where
  "stablecoinValue walletAddress isBuy [] = None"
| "stablecoinValue walletAddress isBuy (transfer # rest) =
     (if mint transfer = USDC_MINT \<or> mint transfer = USDT_MINT then
        (if isBuy \<and> sameAccount (fromUserAccount transfer) walletAddress then Some (tokenAmount transfer)
         else if \<not> isBuy \<and> sameAccount (toUserAccount transfer) walletAddress then Some (tokenAmount transfer)
         else stablecoinValue walletAddress isBuy rest)
      else stablecoinValue walletAddress isBuy rest)"

definition estimatedSolPrice :: jsnum where
  "estimatedSolPrice = Fin 100"

fun wrappedSolValue :: "HeliusTokenTransfer list \<Rightarrow> jsnum option" where
  "wrappedSolValue [] = None"
| "wrappedSolValue (transfer # rest) =
     (if mint transfer = WRAPPED_SOL then Some (js_mul (tokenAmount transfer) estimatedSolPrice)
      else wrappedSolValue rest)"

fun nativeSolValue :: "string \<Rightarrow> bool \<Rightarrow> HeliusNativeTransfer list \<Rightarrow> jsnum option" where
  "nativeSolValue walletAddress isBuy [] = None"
| "nativeSolValue walletAddress isBuy (transfer # rest) =
     (if isBuy \<and> sameAccount (nt_fromUserAccount transfer) walletAddress then
        Some (js_mul (js_div (nt_amount transfer) (Fin 1000000000)) estimatedSolPrice)
      else if \<not> isBuy \<and> sameAccount (nt_toUserAccount transfer) walletAddress then
        Some (js_mul (js_div (nt_amount transfer) (Fin 1000000000)) estimatedSolPrice)
      else nativeSolValue walletAddress isBuy rest)"

definition calculateUSDValue ::
  "HeliusTokenTransfer list \<Rightarrow> HeliusNativeTransfer list \<Rightarrow> string \<Rightarrow> bool \<Rightarrow> jsnum" where
  "calculateUSDValue tts nts walletAddress isBuy =
     (case stablecoinValue walletAddress isBuy tts of
        Some v \<Rightarrow> v
      | None \<Rightarrow>
          (case wrappedSolValue tts of
             Some v \<Rightarrow> v
           | None \<Rightarrow>
               (case nativeSolValue walletAddress isBuy nts of
                  Some v \<Rightarrow> v
                | None \<Rightarrow> Fin 0)))"

text \<open>
  \<open>getTokenCreationTime\<close> memoises in \<open>tokenAgeCache\<close>.  The request to the transaction
  service is a parameter: \<open>api m\<close> is \<open>None\<close> when the request throws or carries no
  data, and otherwise the timestamps of the returned page.
\<close>

type_synonym tokenAgeCache = "string \<rightharpoonup> int"

definition getTokenCreationTime ::
  "(string \<Rightarrow> int list option) \<Rightarrow> string \<Rightarrow> tokenAgeCache \<Rightarrow> int option \<times> tokenAgeCache" where
  "getTokenCreationTime api m cache =
     (case cache m of
        Some t \<Rightarrow> (Some t, cache)
      | None \<Rightarrow>
          (case api m of
             Some page \<Rightarrow>
               (if length page > 0 then (Some (last page), cache(m \<mapsto> last page))
                else (None, cache))
           | None \<Rightarrow> (None, cache)))"

text \<open>\<open>if (tokenCreationTime)\<close>: \<open>null\<close> and the number 0 are falsy.\<close>

definition truthyTime :: "int option \<Rightarrow> bool" where
  "truthyTime t = (case t of None \<Rightarrow> False | Some n \<Rightarrow> n \<noteq> 0)"

definition parseSwapTransaction ::
  "config \<Rightarrow> (string \<Rightarrow> int list option) \<Rightarrow> HeliusTransaction \<Rightarrow> string \<Rightarrow> tokenAgeCache
     \<Rightarrow> ParsedTokenTransfer option \<times> tokenAgeCache" where
  "parseSwapTransaction cfg api tx walletAddress cache =
     (if tx_type tx \<noteq> ''SWAP'' then (None, cache)
      else if transactionError tx \<noteq> None then (None, cache)
      else
        (case findTokenTransfer walletAddress (tokenTransfers tx) of
           None \<Rightarrow> (None, cache)
         | Some (isBuy, tokenTransfer) \<Rightarrow>
             (let usdValue = calculateUSDValue (tokenTransfers tx) (nativeTransfers tx) walletAddress isBuy;
                  price = js_div usdValue (tokenAmount tokenTransfer);
                  (tokenCreationTime, cache') =
                     (if isBuy then getTokenCreationTime api (mint tokenTransfer) cache else (None, cache));
                  parsed = \<lparr>p_type = (if isBuy then Buy else Sell),
                            p_tokenMint = mint tokenTransfer,
                            p_tokenSymbol = mint tokenTransfer,
                            p_tokenName = mint tokenTransfer,
                            p_amount = tokenAmount tokenTransfer,
                            p_priceUsd = price,
                            p_valueUsd = usdValue,
                            p_signature = signature tx,
                            p_timestamp = timestamp tx\<rparr>
              in if isBuy \<and> truthyTime tokenCreationTime
                    \<and> (timestamp tx - the tokenCreationTime) div 60 > MAX_TOKEN_AGE_MINUTES cfg
                 then (None, cache')
                 else (Some parsed, cache'))))"

section \<open>The store (database/schema.sql, database/queries.ts)\<close>

text \<open>
  A row of the table \<open>positions\<close>.  The column \<open>id\<close> (here \<open>id_pos\<close>) defaults to a
  fresh identifier; the model draws it from a counter.  Timestamps are stored as ISO strings made from
  milliseconds since the epoch and read back as such, so the model keeps the milliseconds.
  A column holds the number written to it: the rounding of the \<open>NUMERIC\<close> columns, their
  overflow and the \<open>NULL\<close> that stands for \<open>NaN\<close> or an infinity are left out, and so are the
  failures of the store other than a repeated unique key.  No statement below depends on
  a number read back from a column.
\<close>

record Position =
  id_pos :: nat
  wallet_address :: string
  token_mint :: string
  token_symbol :: "string option"
  token_name :: "string option"
  buy_signature :: string
  buy_timestamp :: int
  buy_price_usd :: jsnum
  buy_amount :: jsnum
  buy_value_usd :: jsnum
  sell_signature :: "string option"
  sell_timestamp :: "int option"
  sell_price_usd :: "jsnum option"
  sell_amount :: "jsnum option"
  sell_value_usd :: "jsnum option"
  hold_duration_seconds :: "int option"
  profit_loss_usd :: "jsnum option"
  profit_loss_percent :: "jsnum option"
  is_open :: bool

record ProcessedSignature =
  ps_signature :: string
  ps_wallet_address :: string

record database =
  positions :: "Position list"
  next_id :: nat
  processed_signatures :: "ProcessedSignature list"

definition empty_database :: database where
  "empty_database = \<lparr>positions = [], next_id = 0, processed_signatures = []\<rparr>"

text \<open>The store refuses an insert that repeats a \<open>UNIQUE\<close> or \<open>PRIMARY KEY\<close> column; the
  error names the table.\<close>

datatype db_error = UniqueViolation string

record BuyTransactionData =
  b_walletAddress :: string
  b_tokenMint :: string
  b_tokenSymbol :: string
  b_tokenName :: string
  b_signature :: string
  b_timestamp :: int
  b_priceUsd :: jsnum
  b_amount :: jsnum
  b_valueUsd :: jsnum

record SellTransactionData =
  s_walletAddress :: string
  s_tokenMint :: string
  s_signature :: string
  s_timestamp :: int
  s_priceUsd :: jsnum
  s_amount :: jsnum
  s_valueUsd :: jsnum

text \<open>\<open>.select('signature').eq('signature', signature).single()\<close>: data only when exactly
  one row matches.\<close>

definition isSignatureProcessed :: "database \<Rightarrow> string \<Rightarrow> bool" where
  "isSignatureProcessed d sig =
     (case filter (\<lambda>r. ps_signature r = sig) (processed_signatures d) of
        [r] \<Rightarrow> True
      | _ \<Rightarrow> False)"

definition markSignatureProcessed :: "database \<Rightarrow> string \<Rightarrow> string \<Rightarrow> db_error + database" where
  "markSignatureProcessed d sig walletAddress =
     (if \<exists>r \<in> set (processed_signatures d). ps_signature r = sig
      then Inl (UniqueViolation ''processed_signatures'')
      else Inr (d\<lparr>processed_signatures :=
                    processed_signatures d @ [\<lparr>ps_signature = sig, ps_wallet_address = walletAddress\<rparr>]\<rparr>))"

definition recordBuyTransaction :: "database \<Rightarrow> BuyTransactionData \<Rightarrow> db_error + database" where
  "recordBuyTransaction d data =
     (if \<exists>r \<in> set (positions d). buy_signature r = b_signature data
      then Inl (UniqueViolation ''positions'')
      else Inr (d\<lparr>positions := positions d @
                    [\<lparr>id_pos = next_id d,
                      wallet_address = b_walletAddress data,
                      token_mint = b_tokenMint data,
                      token_symbol = Some (b_tokenSymbol data),
                      token_name = Some (b_tokenName data),
                      buy_signature = b_signature data,
                      buy_timestamp = b_timestamp data * 1000,
                      buy_price_usd = b_priceUsd data,
                      buy_amount = b_amount data,
                      buy_value_usd = b_valueUsd data,
                      sell_signature = None,
                      sell_timestamp = None,
                      sell_price_usd = None,
                      sell_amount = None,
                      sell_value_usd = None,
                      hold_duration_seconds = None,
                      profit_loss_usd = None,
                      profit_loss_percent = None,
                      is_open = True\<rparr>],
                  next_id := Suc (next_id d)\<rparr>))"

text \<open>\<open>.order('buy_timestamp', {ascending: false}).limit(1)\<close>: a row of greatest
  \<open>buy_timestamp\<close>; among equal timestamps the model takes the row inserted first.\<close>

fun mostRecent :: "Position list \<Rightarrow> Position option" where
  "mostRecent [] = None"
| "mostRecent (p # ps) =
     (case mostRecent ps of
        None \<Rightarrow> Some p
      | Some q \<Rightarrow> if buy_timestamp p < buy_timestamp q then Some q else Some p)"

definition isOpenFor :: "string \<Rightarrow> string \<Rightarrow> Position \<Rightarrow> bool" where
  "isOpenFor walletAddress tokenMint r =
     (wallet_address r = walletAddress \<and> token_mint r = tokenMint \<and> is_open r)"

definition getOpenPosition :: "database \<Rightarrow> string \<Rightarrow> string \<Rightarrow> Position option" where
  "getOpenPosition d walletAddress tokenMint =
     mostRecent (filter (isOpenFor walletAddress tokenMint) (positions d))"

text \<open>The block \<open>Calculate metrics\<close> of \<open>recordSellTransaction\<close>.\<close>

record SellMetrics =
  m_holdDurationSeconds :: int
  m_profitLossUsd :: jsnum
  m_profitLossPercent :: jsnum

definition sellMetrics :: "Position \<Rightarrow> SellTransactionData \<Rightarrow> SellMetrics" where
  "sellMetrics position data =
     (let buyTimestamp = buy_timestamp position;
          sellTimestamp = s_timestamp data * 1000;
          holdDurationSeconds = (sellTimestamp - buyTimestamp) div 1000;
          profitLossUsd = js_sub (s_valueUsd data) (buy_value_usd position);
          profitLossPercent =
            js_mul (js_div (js_sub (s_priceUsd data) (buy_price_usd position)) (buy_price_usd position))
                   (Fin 100)
      in \<lparr>m_holdDurationSeconds = holdDurationSeconds,
          m_profitLossUsd = profitLossUsd,
          m_profitLossPercent = profitLossPercent\<rparr>)"

text \<open>The update of \<open>recordSellTransaction\<close>, applied to a row.\<close>

definition closePosition :: "Position \<Rightarrow> SellTransactionData \<Rightarrow> Position \<Rightarrow> Position" where
  "closePosition position data r =
     (let metrics = sellMetrics position data;
          sellTimestamp = s_timestamp data * 1000
      in r\<lparr>sell_signature := Some (s_signature data),
           sell_timestamp := Some sellTimestamp,
           sell_price_usd := Some (s_priceUsd data),
           sell_amount := Some (s_amount data),
           sell_value_usd := Some (s_valueUsd data),
           hold_duration_seconds := Some (m_holdDurationSeconds metrics),
           profit_loss_usd := Some (m_profitLossUsd metrics),
           profit_loss_percent := Some (m_profitLossPercent metrics),
           is_open := False\<rparr>)"

definition recordSellTransaction :: "database \<Rightarrow> SellTransactionData \<Rightarrow> db_error + database" where
  "recordSellTransaction d data =
     (case getOpenPosition d (s_walletAddress data) (s_tokenMint data) of
        None \<Rightarrow> Inr d
      | Some position \<Rightarrow>
          Inr (d\<lparr>positions :=
                  map (\<lambda>r. if id_pos r = id_pos position then closePosition position data r else r)
                      (positions d)\<rparr>))"

section \<open>The poll of one wallet (index.ts)\<close>

record BuyNotificationData =
  bn_walletAddress :: string
  bn_walletLabel :: "string option"
  bn_tokenSymbol :: string
  bn_tokenName :: string
  bn_amount :: jsnum
  bn_priceUsd :: jsnum
  bn_valueUsd :: jsnum
  bn_signature :: string

text \<open>\<open>holdDurationSeconds\<close> of a notification is \<open>parsed.timestamp - getTime() / 1000\<close>,
  an exact quotient.\<close>

record SellNotificationData =
  sn_walletAddress :: string
  sn_walletLabel :: "string option"
  sn_tokenSymbol :: string
  sn_tokenName :: string
  sn_amount :: jsnum
  sn_buyPriceUsd :: jsnum
  sn_sellPriceUsd :: jsnum
  sn_buyValueUsd :: jsnum
  sn_sellValueUsd :: jsnum
  sn_profitLossUsd :: jsnum
  sn_profitLossPercent :: jsnum
  sn_holdDurationSeconds :: rat
  sn_signature :: string

datatype notification = BuyNotification BuyNotificationData | SellNotification SellNotificationData

text \<open>
  What lies outside the program is a parameter of the poll: the configuration, the
  token-history request of the age filter, and whether the messaging channel delivers a
  notification (a failed delivery throws).
\<close>

record environment =
  cfg :: config
  api :: "string \<Rightarrow> int list option"
  deliver :: "notification \<Rightarrow> bool"

text \<open>The state the poll reads and writes: the store, the module-level maps
  \<open>lastProcessedSignatures\<close> and \<open>tokenAgeCache\<close>, and the notifications delivered so far.\<close>

record state =
  db :: database
  lastProcessedSignatures :: "string \<rightharpoonup> string"
  cache :: tokenAgeCache
  sent :: "notification list"

datatype error = DbError db_error | DeliveryFailure

text \<open>An iteration of the loop of \<open>processWallet\<close> either completes or throws; what it
  wrote before throwing stays written.  The body of the loop is given in pieces:
  marking the signature, sending a notification, the buy branch and the sell branch.\<close>

datatype outcome = Done state | Thrown error state

definition markAndContinue :: "string \<Rightarrow> string \<Rightarrow> state \<Rightarrow> outcome" where
  "markAndContinue sig walletAddress st =
     (case markSignatureProcessed (db st) sig walletAddress of
        Inl e \<Rightarrow> Thrown (DbError e) st
      | Inr d \<Rightarrow> Done (st\<lparr>db := d\<rparr>))"

definition notify :: "environment \<Rightarrow> notification \<Rightarrow> state \<Rightarrow> outcome" where
  "notify env n st =
     (if deliver env n then Done (st\<lparr>sent := sent st @ [n]\<rparr>) else Thrown DeliveryFailure st)"

definition handleBuy ::
  "environment \<Rightarrow> string \<Rightarrow> string option \<Rightarrow> ParsedTokenTransfer \<Rightarrow> state \<Rightarrow> outcome" where
  "handleBuy env walletAddress walletLabel parsed st =
     (case recordBuyTransaction (db st)
             \<lparr>b_walletAddress = walletAddress,
              b_tokenMint = p_tokenMint parsed,
              b_tokenSymbol = p_tokenSymbol parsed,
              b_tokenName = p_tokenName parsed,
              b_signature = p_signature parsed,
              b_timestamp = p_timestamp parsed,
              b_priceUsd = p_priceUsd parsed,
              b_amount = p_amount parsed,
              b_valueUsd = p_valueUsd parsed\<rparr> of
        Inl e \<Rightarrow> Thrown (DbError e) st
      | Inr d \<Rightarrow>
          (if shouldNotifyBuy (cfg env) (p_valueUsd parsed) then
             notify env
               (BuyNotification
                  \<lparr>bn_walletAddress = walletAddress,
                   bn_walletLabel = walletLabel,
                   bn_tokenSymbol = p_tokenSymbol parsed,
                   bn_tokenName = p_tokenName parsed,
                   bn_amount = p_amount parsed,
                   bn_priceUsd = p_priceUsd parsed,
                   bn_valueUsd = p_valueUsd parsed,
                   bn_signature = p_signature parsed\<rparr>)
               (st\<lparr>db := d\<rparr>)
           else Done (st\<lparr>db := d\<rparr>)))"

definition sellNotification ::
  "string \<Rightarrow> string option \<Rightarrow> ParsedTokenTransfer \<Rightarrow> Position \<Rightarrow> SellNotificationData" where
  "sellNotification walletAddress walletLabel parsed position =
     (let buyTimestamp = rat_of_int (buy_timestamp position) / 1000;
          holdDurationSeconds = rat_of_int (p_timestamp parsed) - buyTimestamp;
          profitLossUsd = js_sub (p_valueUsd parsed) (buy_value_usd position);
          profitLossPercent =
            js_mul (js_div (js_sub (p_priceUsd parsed) (buy_price_usd position)) (buy_price_usd position))
                   (Fin 100)
      in \<lparr>sn_walletAddress = walletAddress,
          sn_walletLabel = walletLabel,
          sn_tokenSymbol = p_tokenSymbol parsed,
          sn_tokenName = p_tokenName parsed,
          sn_amount = p_amount parsed,
          sn_buyPriceUsd = buy_price_usd position,
          sn_sellPriceUsd = p_priceUsd parsed,
          sn_buyValueUsd = buy_value_usd position,
          sn_sellValueUsd = p_valueUsd parsed,
          sn_profitLossUsd = profitLossUsd,
          sn_profitLossPercent = profitLossPercent,
          sn_holdDurationSeconds = holdDurationSeconds,
          sn_signature = p_signature parsed\<rparr>)"

text \<open>The sell branch.  A sell with no open position marks the signature and continues,
  which is what the end of an iteration does as well, so that branch simply completes.\<close>

definition handleSell ::
  "environment \<Rightarrow> string \<Rightarrow> string option \<Rightarrow> ParsedTokenTransfer \<Rightarrow> state \<Rightarrow> outcome" where
  "handleSell env walletAddress walletLabel parsed st =
     (case getOpenPosition (db st) walletAddress (p_tokenMint parsed) of
        None \<Rightarrow> Done st
      | Some position \<Rightarrow>
          (case recordSellTransaction (db st)
                  \<lparr>s_walletAddress = walletAddress,
                   s_tokenMint = p_tokenMint parsed,
                   s_signature = p_signature parsed,
                   s_timestamp = p_timestamp parsed,
                   s_priceUsd = p_priceUsd parsed,
                   s_amount = p_amount parsed,
                   s_valueUsd = p_valueUsd parsed\<rparr> of
             Inl e \<Rightarrow> Thrown (DbError e) st
           | Inr d \<Rightarrow>
               (if shouldNotifySell then
                  notify env
                    (SellNotification (sellNotification walletAddress walletLabel parsed position))
                    (st\<lparr>db := d\<rparr>)
                else Done (st\<lparr>db := d\<rparr>))))"

text \<open>The body of the loop below its \<open>break\<close> test.  Every path that does not throw and
  does not skip an already processed signature ends by marking the signature.\<close>

definition handleTransaction ::
  "environment \<Rightarrow> string \<Rightarrow> string option \<Rightarrow> HeliusTransaction \<Rightarrow> state \<Rightarrow> outcome" where
  "handleTransaction env walletAddress walletLabel tx st =
     (if isSignatureProcessed (db st) (signature tx) then Done st
      else
        (case parseSwapTransaction (cfg env) (api env) tx walletAddress (cache st) of
           (None, cache') \<Rightarrow> markAndContinue (signature tx) walletAddress (st\<lparr>cache := cache'\<rparr>)
         | (Some parsed, cache') \<Rightarrow>
             (case (if p_type parsed = Buy
                    then handleBuy env walletAddress walletLabel parsed (st\<lparr>cache := cache'\<rparr>)
                    else handleSell env walletAddress walletLabel parsed (st\<lparr>cache := cache'\<rparr>)) of
                Thrown e st' \<Rightarrow> Thrown e st'
              | Done st' \<Rightarrow> markAndContinue (signature tx) walletAddress st')))"

text \<open>\<open>lastProcessed && tx.signature === lastProcessed\<close>: an absent and an empty
  signature are falsy.\<close>

definition reachedLastProcessed :: "string option \<Rightarrow> HeliusTransaction \<Rightarrow> bool" where
  "reachedLastProcessed lastProcessed tx =
     (case lastProcessed of
        None \<Rightarrow> False
      | Some l \<Rightarrow> l \<noteq> [] \<and> signature tx = l)"

fun processLoop ::
  "environment \<Rightarrow> string \<Rightarrow> string option \<Rightarrow> string option \<Rightarrow> HeliusTransaction list \<Rightarrow> state
     \<Rightarrow> outcome" where
  "processLoop env walletAddress walletLabel lastProcessed [] st = Done st"
| "processLoop env walletAddress walletLabel lastProcessed (tx # rest) st =
     (if reachedLastProcessed lastProcessed tx then Done st
      else
        (case handleTransaction env walletAddress walletLabel tx st of
           Thrown e st' \<Rightarrow> Thrown e st'
         | Done st' \<Rightarrow> processLoop env walletAddress walletLabel lastProcessed rest st'))"

text \<open>\<open>fetched\<close> is what \<open>getWalletTransactions\<close> returns, newest first, or \<open>None\<close> when it
  throws.  The \<open>catch\<close> of \<open>processWallet\<close> swallows every error, so the result is a state.\<close>

definition processWallet ::
  "environment \<Rightarrow> HeliusTransaction list option \<Rightarrow> string \<Rightarrow> string option \<Rightarrow> state \<Rightarrow> state" where
  "processWallet env fetched walletAddress walletLabel st =
     (case fetched of
        None \<Rightarrow> st
      | Some transactions \<Rightarrow>
          (let lastProcessed = lastProcessedSignatures st walletAddress;
               reversedTxs = rev transactions
           in case processLoop env walletAddress walletLabel lastProcessed reversedTxs st of
                Thrown e st' \<Rightarrow> st'
              | Done st' \<Rightarrow>
                  (if length transactions > 0
                   then st'\<lparr>lastProcessedSignatures :=
                             (lastProcessedSignatures st')(walletAddress \<mapsto> signature (hd transactions))\<rparr>
                   else st')))"

section \<open>Sequences of store operations\<close>

text \<open>
  A caller issues \<open>recordBuyTransaction\<close> and \<open>recordSellTransaction\<close> one after the other.
  A call that throws leaves the store as it was.  \<open>buys_guarded\<close> describes the sequences
  in which every buy is issued at a moment when \<open>getOpenPosition\<close> finds no open position
  for its wallet and token.
\<close>

datatype store_op = RecordBuy BuyTransactionData | RecordSell SellTransactionData

definition apply_op :: "database \<Rightarrow> store_op \<Rightarrow> database" where
  "apply_op d oper =
     (case (case oper of
              RecordBuy b \<Rightarrow> recordBuyTransaction d b
            | RecordSell s \<Rightarrow> recordSellTransaction d s) of
        Inl e \<Rightarrow> d
      | Inr d' \<Rightarrow> d')"

fun run_ops :: "database \<Rightarrow> store_op list \<Rightarrow> database" where
  "run_ops d [] = d"
| "run_ops d (oper # rest) = run_ops (apply_op d oper) rest"

fun buys_guarded :: "database \<Rightarrow> store_op list \<Rightarrow> bool" where
  "buys_guarded d [] = True"
| "buys_guarded d (oper # rest) =
     ((case oper of
         RecordBuy b \<Rightarrow> getOpenPosition d (b_walletAddress b) (b_tokenMint b) = None
       | RecordSell s \<Rightarrow> True)
      \<and> buys_guarded (apply_op d oper) rest)"

text \<open>The rows of \<open>positions\<close> that are open for a wallet and a token.\<close>

definition openRows :: "string \<Rightarrow> string \<Rightarrow> database \<Rightarrow> Position list" where
  "openRows walletAddress tokenMint d = filter (isOpenFor walletAddress tokenMint) (positions d)"

section \<open>Stablecoin transfers in the direction of a role\<close>

text \<open>
  The transfers that the rule of stablecoin priority speaks of, written out independently
  of the parser: the mint is USDC or USDT, and the account on the wallet's side (the
  sender for a buy, the receiver for a sell) is present and agrees with the wallet after
  \<open>toLowerCase\<close>.
\<close>

definition spec_stablecoin_in_role :: "string \<Rightarrow> bool \<Rightarrow> HeliusTokenTransfer \<Rightarrow> bool" where
  "spec_stablecoin_in_role walletAddress isBuy u =
     ((mint u = USDC_MINT \<or> mint u = USDT_MINT)
      \<and> (case (if isBuy then fromUserAccount u else toUserAccount u) of
            None \<Rightarrow> False
          | Some a \<Rightarrow> toLowerCase a = toLowerCase walletAddress))"

section \<open>Example inputs\<close>

text \<open>A buy of 25000 USD at 0.000025 and the sell of the same tokens, two days and four
  hours later, for 35000 USD at 0.000035.  The prices are the doubles nearest to these
  decimals.\<close>

definition example_buy :: BuyTransactionData where
  "example_buy =
     \<lparr>b_walletAddress = ''W1'', b_tokenMint = ''M1'', b_tokenSymbol = ''M1'', b_tokenName = ''M1'',
      b_signature = ''S1'', b_timestamp = 1700000000, b_priceUsd = dbl (25 / 1000000),
      b_amount = Fin 1000000000, b_valueUsd = Fin 25000\<rparr>"

definition example_sell :: SellTransactionData where
  "example_sell =
     \<lparr>s_walletAddress = ''W1'', s_tokenMint = ''M1'', s_signature = ''S2'',
      s_timestamp = 1700187200, s_priceUsd = dbl (35 / 1000000),
      s_amount = Fin 1000000000, s_valueUsd = Fin 35000\<rparr>"

definition example_position :: Position where
  "example_position =
     \<lparr>id_pos = 0, wallet_address = ''W1'', token_mint = ''M1'', token_symbol = Some ''M1'',
      token_name = Some ''M1'', buy_signature = ''S1'', buy_timestamp = 1700000000000,
      buy_price_usd = dbl (25 / 1000000), buy_amount = Fin 1000000000, buy_value_usd = Fin 25000,
      sell_signature = None, sell_timestamp = None, sell_price_usd = None, sell_amount = None,
      sell_value_usd = None, hold_duration_seconds = None, profit_loss_usd = None,
      profit_loss_percent = None, is_open = True\<rparr>"

text \<open>The store after \<open>example_buy\<close> alone.\<close>

definition example_open_db :: database where
  "example_open_db = \<lparr>positions = [example_position], next_id = 1, processed_signatures = []\<rparr>"

text \<open>A store whose only position is closed, and which has processed the signature \<open>S1\<close>.\<close>

definition example_closed_db :: database where
  "example_closed_db =
     \<lparr>positions = [example_position\<lparr>is_open := False\<rparr>], next_id = 1,
      processed_signatures = [\<lparr>ps_signature = ''S1'', ps_wallet_address = ''W1''\<rparr>]\<rparr>"

text \<open>Token-history requests: one that never answers, and one whose page ends with a
  transaction at time 1700000000.\<close>

definition no_history :: "string \<Rightarrow> int list option" where
  "no_history m = None"

definition example_history :: "string \<Rightarrow> int list option" where
  "example_history m = Some [1700000000]"

text \<open>A swap in which the wallet \<open>whale1\<close> pays 25 USDC, moves 2 wrapped SOL and receives
  1000000 units of \<open>TOKEN\<close>, one hour and one second after the token was created.\<close>

definition example_swap :: HeliusTransaction where
  "example_swap =
     \<lparr>tx_type = ''SWAP'', signature = ''S1'', timestamp = 1700003601,
      tokenTransfers =
        [\<lparr>fromUserAccount = Some ''whale1'', toUserAccount = Some ''pool'',
          mint = WRAPPED_SOL, tokenAmount = Fin 2\<rparr>,
         \<lparr>fromUserAccount = Some ''pool'', toUserAccount = Some ''whale1'',
          mint = ''TOKEN'', tokenAmount = Fin 1000000\<rparr>,
         \<lparr>fromUserAccount = Some ''whale1'', toUserAccount = Some ''pool'',
          mint = USDC_MINT, tokenAmount = Fin 25\<rparr>],
      nativeTransfers = [],
      transactionError = None\<rparr>"

text \<open>A swap whose only transfer goes to \<open>WHALE1\<close>, an account that differs from
  \<open>whale1\<close> in the case of its letters.\<close>

definition example_other_case_transfer :: HeliusTokenTransfer where
  "example_other_case_transfer =
     \<lparr>fromUserAccount = Some ''pool'', toUserAccount = Some ''WHALE1'',
      mint = ''TOKEN'', tokenAmount = Fin 1000000\<rparr>"

definition example_other_case_swap :: HeliusTransaction where
  "example_other_case_swap =
     \<lparr>tx_type = ''SWAP'', signature = ''S3'', timestamp = 1700000000,
      tokenTransfers = [example_other_case_transfer],
      nativeTransfers = [],
      transactionError = None\<rparr>"

text \<open>A swap in which the wallet pays 2500 USDC and the matched token transfer has the
  amount 0.\<close>

definition example_zero_amount_swap :: HeliusTransaction where
  "example_zero_amount_swap =
     \<lparr>tx_type = ''SWAP'', signature = ''S4'', timestamp = 1700000000,
      tokenTransfers =
        [\<lparr>fromUserAccount = Some ''pool'', toUserAccount = Some ''whale1'',
          mint = ''TOKEN'', tokenAmount = Fin 0\<rparr>,
         \<lparr>fromUserAccount = Some ''whale1'', toUserAccount = Some ''pool'',
          mint = USDC_MINT, tokenAmount = Fin 2500\<rparr>],
      nativeTransfers = [],
      transactionError = None\<rparr>"

text \<open>A swap in which the wallet moves 2 wrapped SOL, receives 1000000 units of \<open>TOKEN\<close>,
  pays a fee of 1 USDC and pays 2500 USDT.\<close>

definition example_usdt_payment :: HeliusTokenTransfer where
  "example_usdt_payment =
     \<lparr>fromUserAccount = Some ''whale1'', toUserAccount = Some ''pool'',
      mint = USDT_MINT, tokenAmount = Fin 2500\<rparr>"

definition example_two_stablecoin_swap :: HeliusTransaction where
  "example_two_stablecoin_swap =
     \<lparr>tx_type = ''SWAP'', signature = ''S6'', timestamp = 1700000000,
      tokenTransfers =
        [\<lparr>fromUserAccount = Some ''whale1'', toUserAccount = Some ''pool'',
          mint = WRAPPED_SOL, tokenAmount = Fin 2\<rparr>,
         \<lparr>fromUserAccount = Some ''pool'', toUserAccount = Some ''whale1'',
          mint = ''TOKEN'', tokenAmount = Fin 1000000\<rparr>,
         \<lparr>fromUserAccount = Some ''whale1'', toUserAccount = Some ''feeAccount'',
          mint = USDC_MINT, tokenAmount = Fin 1\<rparr>,
         example_usdt_payment],
      nativeTransfers = [],
      transactionError = None\<rparr>"

text \<open>The same swap one minute later, when the token is 61 minutes old.\<close>

definition example_late_swap :: HeliusTransaction where
  "example_late_swap = example_swap\<lparr>timestamp := 1700003660\<rparr>"

text \<open>A state of the poll over \<open>example_closed_db\<close>.\<close>

definition example_state :: state where
  "example_state =
     \<lparr>db = example_closed_db, lastProcessedSignatures = Map.empty, cache = Map.empty, sent = []\<rparr>"

text \<open>A second buy of the same token by the same wallet, in a later transaction.\<close>

definition example_second_buy :: BuyTransactionData where
  "example_second_buy = example_buy\<lparr>b_signature := ''S5'', b_timestamp := 1700200000\<rparr>"

text \<open>A poll whose channel delivers every notification and whose token-history request
  never answers, started in the state of a fresh process over an empty store.\<close>

definition always_delivered :: "notification \<Rightarrow> bool" where
  "always_delivered n = True"

definition example_env :: environment where
  "example_env = \<lparr>cfg = default_config, api = no_history, deliver = always_delivered\<rparr>"

definition initial_state :: state where
  "initial_state =
     \<lparr>db = empty_database, lastProcessedSignatures = Map.empty, cache = Map.empty, sent = []\<rparr>"

text \<open>Two transactions of the wallet that are not swaps, \<open>A\<close> older than \<open>B\<close>.\<close>

definition example_tx_a :: HeliusTransaction where
  "example_tx_a =
     \<lparr>tx_type = ''TRANSFER'', signature = ''A'', timestamp = 1700000100,
      tokenTransfers = [], nativeTransfers = [], transactionError = None\<rparr>"

definition example_tx_b :: HeliusTransaction where
  "example_tx_b =
     \<lparr>tx_type = ''TRANSFER'', signature = ''B'', timestamp = 1700000200,
      tokenTransfers = [], nativeTransfers = [], transactionError = None\<rparr>"

text \<open>Three polls of the wallet \<open>whale1\<close>.  The first fetches \<open>B\<close> and \<open>A\<close>.  Then the swap
  \<open>example_swap\<close> (signature \<open>S1\<close>) happens, and the second and third polls fetch it in
  front of \<open>B\<close> and \<open>A\<close>.\<close>

definition after_first_poll :: state where
  "after_first_poll =
     processWallet example_env (Some [example_tx_b, example_tx_a]) ''whale1'' None initial_state"

definition after_second_poll :: state where
  "after_second_poll =
     processWallet example_env (Some [example_swap, example_tx_b, example_tx_a]) ''whale1'' None
       after_first_poll"

definition after_third_poll :: state where
  "after_third_poll =
     processWallet example_env (Some [example_swap, example_tx_b, example_tx_a]) ''whale1'' None
       after_second_poll"

section \<open>Facts about the store queries\<close>

lemma mostRecent_None: "mostRecent ps = None \<longleftrightarrow> ps = []"
  by (induction ps) (auto split: option.splits)

lemma mostRecent_mem: "mostRecent ps = Some p \<Longrightarrow> p \<in> set ps"
  by (induction ps arbitrary: p) (auto split: option.splits if_splits)

lemma mostRecent_max:
  "mostRecent ps = Some p \<Longrightarrow> r \<in> set ps \<Longrightarrow> buy_timestamp r \<le> buy_timestamp p"
  by (induction ps arbitrary: p) (auto split: option.splits if_splits simp: mostRecent_None)

section \<open>Facts about the swap parser\<close>

lemma findTokenTransfer_find:
  "findTokenTransfer w tts =
     map_option (\<lambda>t. (sameAccount (toUserAccount t) w, t))
       (find (\<lambda>t. mint t \<noteq> WRAPPED_SOL
                  \<and> (sameAccount (toUserAccount t) w \<or> sameAccount (fromUserAccount t) w)) tts)"
  by (induction tts) simp_all

lemma stablecoinValue_find:
  "stablecoinValue w isBuy tts =
     map_option tokenAmount
       (find (\<lambda>t. (mint t = USDC_MINT \<or> mint t = USDT_MINT)
                  \<and> (if isBuy then sameAccount (fromUserAccount t) w
                      else sameAccount (toUserAccount t) w)) tts)"
  by (induction tts) simp_all

text \<open>The transfer a successful parse would return for the match \<open>(isBuy, t)\<close>.\<close>

lemma parseSwapTransaction_found:
  assumes "tx_type tx = ''SWAP''" "transactionError tx = None"
    and "findTokenTransfer w (tokenTransfers tx) = Some (isBuy, t)"
  shows "fst (parseSwapTransaction conf hist tx w memo) =
           (if isBuy \<and> truthyTime (fst (getTokenCreationTime hist (mint t) memo))
               \<and> MAX_TOKEN_AGE_MINUTES conf
                   < (timestamp tx - the (fst (getTokenCreationTime hist (mint t) memo))) div 60
            then None
            else Some \<lparr>p_type = (if isBuy then Buy else Sell),
                       p_tokenMint = mint t, p_tokenSymbol = mint t, p_tokenName = mint t,
                       p_amount = tokenAmount t,
                       p_priceUsd = js_div (calculateUSDValue (tokenTransfers tx) (nativeTransfers tx) w isBuy)
                                           (tokenAmount t),
                       p_valueUsd = calculateUSDValue (tokenTransfers tx) (nativeTransfers tx) w isBuy,
                       p_signature = signature tx, p_timestamp = timestamp tx\<rparr>)"
proof (cases "getTokenCreationTime hist (mint t) memo")
  case (Pair ct memo')
  then show ?thesis
    using assms by (simp add: parseSwapTransaction_def Let_def)
qed

lemma parseSwapTransaction_not_found:
  "tx_type tx \<noteq> ''SWAP'' \<or> transactionError tx \<noteq> None \<or> findTokenTransfer w (tokenTransfers tx) = None
   \<Longrightarrow> fst (parseSwapTransaction conf hist tx w memo) = None"
  by (auto simp: parseSwapTransaction_def)

lemma js_div_zero: "js_div x (Fin 0) \<in> {NaN, PosInf, NegInf}"
  by (cases x) (simp_all add: js_inf_def)

lemma age_minutes: "(m < (d::int) div 60) = (60 * m + 60 \<le> d)"
proof -
  have "d = 60 * (d div 60) + d mod 60" "0 \<le> d mod 60" "d mod 60 < 60"
    by simp_all
  then show ?thesis by linarith
qed

lemma parseSwapTransaction_Some:
  assumes "fst (parseSwapTransaction conf hist tx w memo) = Some p"
  shows "\<exists>isBuy t. tx_type tx = ''SWAP'' \<and> transactionError tx = None
           \<and> findTokenTransfer w (tokenTransfers tx) = Some (isBuy, t)
           \<and> p_type p = (if isBuy then Buy else Sell)
           \<and> p_tokenMint p = mint t \<and> p_amount p = tokenAmount t
           \<and> p_valueUsd p = calculateUSDValue (tokenTransfers tx) (nativeTransfers tx) w isBuy
           \<and> p_priceUsd p = js_div (p_valueUsd p) (p_amount p)"
proof -
  have "\<not> (tx_type tx \<noteq> ''SWAP'' \<or> transactionError tx \<noteq> None
            \<or> findTokenTransfer w (tokenTransfers tx) = None)"
  proof
    assume "tx_type tx \<noteq> ''SWAP'' \<or> transactionError tx \<noteq> None
            \<or> findTokenTransfer w (tokenTransfers tx) = None"
    then have "fst (parseSwapTransaction conf hist tx w memo) = None"
      by (rule parseSwapTransaction_not_found)
    with assms show False by simp
  qed
  then have a: "tx_type tx = ''SWAP''" "transactionError tx = None"
    and "findTokenTransfer w (tokenTransfers tx) \<noteq> None"
    by blast+
  then obtain isBuy t where f: "findTokenTransfer w (tokenTransfers tx) = Some (isBuy, t)"
    by auto
  have "p = \<lparr>p_type = (if isBuy then Buy else Sell),
             p_tokenMint = mint t, p_tokenSymbol = mint t, p_tokenName = mint t,
             p_amount = tokenAmount t,
             p_priceUsd = js_div (calculateUSDValue (tokenTransfers tx) (nativeTransfers tx) w isBuy)
                                 (tokenAmount t),
             p_valueUsd = calculateUSDValue (tokenTransfers tx) (nativeTransfers tx) w isBuy,
             p_signature = signature tx, p_timestamp = timestamp tx\<rparr>"
    using assms parseSwapTransaction_found [OF a f, of conf hist memo]
    by (simp split: if_splits)
  then show ?thesis
    using a f by simp
qed

lemmas example_defs =
  example_swap_def example_other_case_swap_def example_other_case_transfer_def
  example_zero_amount_swap_def example_two_stablecoin_swap_def example_usdt_payment_def
  no_history_def example_history_def default_config_def

lemmas parser_defs =
  parseSwapTransaction_def calculateUSDValue_def getTokenCreationTime_def truthyTime_def
  sameAccount_def toLowerCase_def toLowerChar_def WRAPPED_SOL_def USDC_MINT_def USDT_MINT_def
  js_inf_def Let_def

lemma example_swap_parsed:
  "map_option (\<lambda>p. (p_type p, p_tokenMint p, p_amount p, p_valueUsd p))
     (fst (parseSwapTransaction default_config example_history example_swap ''whale1'' Map.empty)) =
     Some (Buy, ''TOKEN'', Fin 1000000, Fin 25)"
  by (simp add: example_defs parser_defs)

section \<open>Classification\<close>

text \<open>
  Claim C4, amended.  \<open>parseSwapTransaction\<close> returns nothing when the type is not \<open>SWAP\<close>
  or the transaction carries an error.  Otherwise it takes the first token transfer, in
  source order, whose mint is not the wrapped-SOL mint and whose receiving or sending
  account is the wallet, where two accounts are the same when they agree after
  \<open>toLowerCase\<close>.  The transfer is a buy when its receiving account is the wallet and a
  sell otherwise; the result carries its mint and amount.  Nothing is returned when no
  such transfer exists, or when the transfer is a buy that the token-age filter discards.
\<close>

theorem parseSwapTransaction_classification:
  "map_option (\<lambda>p. (p_type p, p_tokenMint p, p_amount p))
     (fst (parseSwapTransaction conf hist tx w memo)) =
     (if tx_type tx \<noteq> ''SWAP'' then None
      else if transactionError tx \<noteq> None then None
      else
        (case find (\<lambda>t. mint t \<noteq> WRAPPED_SOL
                       \<and> (sameAccount (toUserAccount t) w \<or> sameAccount (fromUserAccount t) w))
                   (tokenTransfers tx) of
           None \<Rightarrow> None
         | Some t \<Rightarrow>
             if sameAccount (toUserAccount t) w
             then (if (case fst (getTokenCreationTime hist (mint t) memo) of
                         None \<Rightarrow> False
                       | Some ct \<Rightarrow> ct \<noteq> 0 \<and> MAX_TOKEN_AGE_MINUTES conf < (timestamp tx - ct) div 60)
                   then None
                   else Some (Buy, mint t, tokenAmount t))
             else Some (Sell, mint t, tokenAmount t)))
   \<and> sameAccount a w = (\<exists>s. a = Some s \<and> toLowerCase s = toLowerCase w)"
proof -
  let ?P = "\<lambda>t. mint t \<noteq> WRAPPED_SOL
                 \<and> (sameAccount (toUserAccount t) w \<or> sameAccount (fromUserAccount t) w)"
  have acc: "sameAccount a w = (\<exists>s. a = Some s \<and> toLowerCase s = toLowerCase w)"
    by (cases a) (simp_all add: sameAccount_def)
  have main: ?thesis if "tx_type tx \<noteq> ''SWAP'' \<or> transactionError tx \<noteq> None"
    using that acc parseSwapTransaction_not_found [of tx w conf hist memo] by auto
  have none: ?thesis
    if "tx_type tx = ''SWAP''" "transactionError tx = None" "find ?P (tokenTransfers tx) = None"
  proof -
    have "findTokenTransfer w (tokenTransfers tx) = None"
      using that(3) by (simp add: findTokenTransfer_find)
    then have "fst (parseSwapTransaction conf hist tx w memo) = None"
      by (simp add: parseSwapTransaction_not_found)
    then show ?thesis using that acc by simp
  qed
  have some: ?thesis
    if "tx_type tx = ''SWAP''" "transactionError tx = None" "find ?P (tokenTransfers tx) = Some t" for t
  proof -
    have f: "findTokenTransfer w (tokenTransfers tx) = Some (sameAccount (toUserAccount t) w, t)"
      using that(3) by (simp add: findTokenTransfer_find)
    show ?thesis
      using that acc parseSwapTransaction_found [OF that(1,2) f, of conf hist memo]
      by (auto simp: truthyTime_def split: option.splits)
  qed
  show ?thesis
    using main none some by (cases "find ?P (tokenTransfers tx)") blast+
qed

text \<open>A transfer to \<open>WHALE1\<close> is classified as a buy of the wallet \<open>whale1\<close>, although neither
  of its accounts equals the wallet.\<close>

theorem parseSwapTransaction_classification_counterexample:
  "tokenTransfers example_other_case_swap = [example_other_case_transfer]
   \<and> toUserAccount example_other_case_transfer \<noteq> Some ''whale1''
   \<and> fromUserAccount example_other_case_transfer \<noteq> Some ''whale1''
   \<and> map_option p_type
        (fst (parseSwapTransaction default_config no_history example_other_case_swap ''whale1'' Map.empty))
       = Some Buy"
  by (simp add: example_defs parser_defs)

theorem parseSwapTransaction_classification_witness:
  "map_option (\<lambda>p. (p_type p, p_tokenMint p, p_amount p))
     (fst (parseSwapTransaction default_config no_history example_other_case_swap ''whale1'' Map.empty))
   = Some (Buy, ''TOKEN'', Fin 1000000)"
  using parseSwapTransaction_classification
          [of default_config no_history example_other_case_swap "''whale1''" Map.empty None]
  by (simp add: example_defs getTokenCreationTime_def sameAccount_def toLowerCase_def
        toLowerChar_def WRAPPED_SOL_def)

section \<open>The USD value of a swap\<close>

lemma stablecoinValue_spec:
  "stablecoinValue w isBuy tts =
     map_option tokenAmount (find (spec_stablecoin_in_role w isBuy) tts)"
proof -
  have "spec_stablecoin_in_role w isBuy =
          (\<lambda>t. (mint t = USDC_MINT \<or> mint t = USDT_MINT)
                \<and> (if isBuy then sameAccount (fromUserAccount t) w
                    else sameAccount (toUserAccount t) w))"
    by (rule ext) (simp add: spec_stablecoin_in_role_def sameAccount_def)
  then show ?thesis
    by (simp add: stablecoinValue_find)
qed

text \<open>
  Claim C5, amended.  Let the token transfers of a transaction contain a USDC or USDT
  transfer in the direction of the wallet's role: sent by the wallet for a buy, received
  by it for a sell, the account compared after \<open>toLowerCase\<close>.  Then the USD value is the
  amount of the first such transfer in source order, whatever wrapped-SOL and native
  transfers the transaction also holds and whatever further stablecoin transfers follow;
  this is the \<open>valueUsd\<close> of the parsed transfer.  In every case the stablecoin loop yields
  the amount of the first transfer in role and nothing when there is none, so a
  stablecoin transfer of another account or in the other direction is never used.
\<close>

theorem stablecoin_priority:
  assumes "t \<in> set tts" and "spec_stablecoin_in_role w isBuy t"
  shows "\<exists>t'. find (spec_stablecoin_in_role w isBuy) tts = Some t'
           \<and> spec_stablecoin_in_role w isBuy t'
           \<and> (\<exists>i < length tts. tts ! i = t'
                  \<and> (\<forall>j < i. \<not> spec_stablecoin_in_role w isBuy (tts ! j)))
           \<and> calculateUSDValue tts nts w isBuy = tokenAmount t'
           \<and> (\<forall>conf hist tx memo p.
                 tokenTransfers tx = tts
                 \<and> fst (parseSwapTransaction conf hist tx w memo) = Some p
                 \<and> (p_type p = Buy) = isBuy
                 \<longrightarrow> p_valueUsd p = tokenAmount t')
           \<and> stablecoinValue w' isBuy' tts' =
               map_option tokenAmount (find (spec_stablecoin_in_role w' isBuy') tts')"
proof -
  let ?P = "spec_stablecoin_in_role w isBuy"
  from assms have "find ?P tts \<noteq> None"
    by (auto simp: find_None_iff)
  then obtain t' where f: "find ?P tts = Some t'"
    by auto
  then have first: "?P t'" "\<exists>i < length tts. tts ! i = t' \<and> (\<forall>j < i. \<not> ?P (tts ! j))"
    by (auto simp: find_Some_iff)
  have v: "calculateUSDValue tts nts' w isBuy = tokenAmount t'" for nts'
    using f by (simp add: calculateUSDValue_def stablecoinValue_spec)
  have parsed: "p_valueUsd p = tokenAmount t'"
    if h: "tokenTransfers tx = tts" "fst (parseSwapTransaction conf hist tx w memo) = Some p"
       "(p_type p = Buy) = isBuy" for conf hist tx memo p
  proof -
    obtain isBuy'' where b:
      "p_type p = (if isBuy'' then Buy else Sell)"
      "p_valueUsd p = calculateUSDValue (tokenTransfers tx) (nativeTransfers tx) w isBuy''"
      using parseSwapTransaction_Some [OF h(2)] by blast
    from b(1) h(3) have "isBuy'' = isBuy" by (auto split: if_splits)
    with b(2) h(1) v show ?thesis by simp
  qed
  show ?thesis
    using f first v parsed stablecoinValue_spec [of w' isBuy' tts'] by blast
qed

text \<open>The wallet pays a fee of 1 USDC and then 2500 USDT.  The USDT payment is a
  stablecoin transfer sent by the wallet in a transaction that also moves wrapped SOL,
  and the value of the buy is 1, not 2500.\<close>

theorem stablecoin_priority_counterexample:
  "example_usdt_payment \<in> set (tokenTransfers example_two_stablecoin_swap)
   \<and> mint (hd (tokenTransfers example_two_stablecoin_swap)) = WRAPPED_SOL
   \<and> mint example_usdt_payment = USDT_MINT
   \<and> fromUserAccount example_usdt_payment = Some ''whale1''
   \<and> tokenAmount example_usdt_payment = Fin 2500
   \<and> map_option (\<lambda>p. (p_type p, p_valueUsd p))
        (fst (parseSwapTransaction default_config no_history example_two_stablecoin_swap
                ''whale1'' Map.empty))
       = Some (Buy, Fin 1)"
  by (simp add: example_defs parser_defs)

text \<open>In \<open>example_swap\<close> the wrapped-SOL transfer comes first and would give 200; the value
  is the 25 of the only USDC transfer.  With the two payments the value is the 1 of the
  first.\<close>

theorem stablecoin_priority_witness:
  "calculateUSDValue (tokenTransfers example_swap) (nativeTransfers example_swap) ''whale1'' True
     = Fin 25
   \<and> calculateUSDValue (tokenTransfers example_two_stablecoin_swap)
        (nativeTransfers example_two_stablecoin_swap) ''whale1'' True
     = Fin 1"
proof -
  let ?usdc = "\<lparr>fromUserAccount = Some ''whale1'', toUserAccount = Some ''pool'',
                mint = USDC_MINT, tokenAmount = Fin 25\<rparr>"
  let ?fee = "\<lparr>fromUserAccount = Some ''whale1'', toUserAccount = Some ''feeAccount'',
               mint = USDC_MINT, tokenAmount = Fin 1\<rparr>"
  have a1: "?usdc \<in> set (tokenTransfers example_swap)"
    by (simp add: example_swap_def)
  have b1: "spec_stablecoin_in_role ''whale1'' True ?usdc"
    by (simp add: spec_stablecoin_in_role_def)
  have f1: "find (spec_stablecoin_in_role ''whale1'' True) (tokenTransfers example_swap) = Some ?usdc"
    by (simp add: example_swap_def spec_stablecoin_in_role_def WRAPPED_SOL_def USDC_MINT_def
          USDT_MINT_def)
  have a2: "example_usdt_payment \<in> set (tokenTransfers example_two_stablecoin_swap)"
    by (simp add: example_two_stablecoin_swap_def)
  have b2: "spec_stablecoin_in_role ''whale1'' True example_usdt_payment"
    by (simp add: spec_stablecoin_in_role_def example_usdt_payment_def)
  have f2: "find (spec_stablecoin_in_role ''whale1'' True)
              (tokenTransfers example_two_stablecoin_swap) = Some ?fee"
    by (simp add: example_two_stablecoin_swap_def example_usdt_payment_def
          spec_stablecoin_in_role_def WRAPPED_SOL_def USDC_MINT_def USDT_MINT_def)
  from stablecoin_priority [OF a1 b1, of "nativeTransfers example_swap"] f1
  have 1: "calculateUSDValue (tokenTransfers example_swap) (nativeTransfers example_swap)
             ''whale1'' True = tokenAmount ?usdc"
    by auto
  from stablecoin_priority [OF a2 b2, of "nativeTransfers example_two_stablecoin_swap"] f2
  have 2: "calculateUSDValue (tokenTransfers example_two_stablecoin_swap)
             (nativeTransfers example_two_stablecoin_swap) ''whale1'' True = tokenAmount ?fee"
    by auto
  from 1 2 show ?thesis by simp
qed

section \<open>The price of a transfer of amount zero\<close>

text \<open>
  Claim C7, amended.  The price is the quotient \<open>usdValue / tokenAmount\<close>, computed without
  a guard.  For a parsed transfer whose amount is 0 the price is therefore the value
  divided by zero, which is never a finite number: \<open>NaN\<close> when the value is 0 and
  \<open>Infinity\<close> when the value is positive.  No error is raised and the transfer is returned
  like any other.
\<close>

theorem zero_amount_price:
  assumes "fst (parseSwapTransaction conf hist tx w memo) = Some p" and "p_amount p = Fin 0"
  shows "p_priceUsd p = js_div (p_valueUsd p) (Fin 0)
         \<and> p_priceUsd p \<in> {NaN, PosInf, NegInf}
         \<and> (p_valueUsd p = Fin 0 \<longrightarrow> p_priceUsd p = NaN)
         \<and> (\<forall>v. p_valueUsd p = Fin v \<and> 0 < v \<longrightarrow> p_priceUsd p = PosInf)"
proof -
  have 1: "p_priceUsd p = js_div (p_valueUsd p) (Fin 0)"
    using parseSwapTransaction_Some [OF assms(1)] assms(2) by auto
  then show ?thesis
    using js_div_zero [of "p_valueUsd p"] by (auto simp: js_inf_def)
qed

text \<open>A buy of amount 0 paid with 2500 USDC has the price \<open>Infinity\<close>.\<close>

theorem zero_amount_price_counterexample:
  "map_option (\<lambda>p. (p_amount p, p_valueUsd p, p_priceUsd p))
     (fst (parseSwapTransaction default_config no_history example_zero_amount_swap ''whale1'' Map.empty))
   = Some (Fin 0, Fin 2500, PosInf)"
  by (simp add: example_defs parser_defs)

theorem zero_amount_price_witness:
  "\<exists>p. fst (parseSwapTransaction default_config no_history example_zero_amount_swap ''whale1'' Map.empty)
         = Some p
       \<and> p_amount p = Fin 0 \<and> p_valueUsd p = Fin 2500 \<and> p_priceUsd p = PosInf"
proof -
  obtain p where p:
    "fst (parseSwapTransaction default_config no_history example_zero_amount_swap ''whale1'' Map.empty)
       = Some p" "p_amount p = Fin 0" "p_valueUsd p = Fin 2500"
    by (simp add: example_defs parser_defs)
  from zero_amount_price [OF p(1,2)] p(3) have "p_priceUsd p = PosInf" by (simp add: js_inf_def)
  with p show ?thesis by blast
qed

section \<open>The token-age filter\<close>

text \<open>
  What the filter does.  Let a swap without error match the transfer \<open>t\<close>, as a buy or as
  a sell.  The parser returns nothing exactly when the match is a buy, the creation time
  of the token is known and is not 0, and the age in whole minutes,
  \<open>(timestamp - creationTime) div 60\<close>, exceeds \<open>MAX_TOKEN_AGE_MINUTES\<close>; that is, when the
  age in seconds is at least \<open>60 * MAX_TOKEN_AGE_MINUTES + 60\<close>.
\<close>

lemma age_filter_characterisation:
  assumes "tx_type tx = ''SWAP''" and "transactionError tx = None"
    and "findTokenTransfer w (tokenTransfers tx) = Some (isBuy, t)"
  shows "(fst (parseSwapTransaction conf hist tx w memo) = None) =
           (isBuy \<and> (\<exists>ct. fst (getTokenCreationTime hist (mint t) memo) = Some ct \<and> ct \<noteq> 0
                       \<and> MAX_TOKEN_AGE_MINUTES conf < (timestamp tx - ct) div 60))
         \<and> (fst (parseSwapTransaction conf hist tx w memo) = None) =
           (isBuy \<and> (\<exists>ct. fst (getTokenCreationTime hist (mint t) memo) = Some ct \<and> ct \<noteq> 0
                       \<and> 60 * MAX_TOKEN_AGE_MINUTES conf + 60 \<le> timestamp tx - ct))"
proof -
  have "(fst (parseSwapTransaction conf hist tx w memo) = None) =
           (isBuy \<and> (\<exists>ct. fst (getTokenCreationTime hist (mint t) memo) = Some ct \<and> ct \<noteq> 0
                       \<and> MAX_TOKEN_AGE_MINUTES conf < (timestamp tx - ct) div 60))"
    using parseSwapTransaction_found [OF assms, of conf hist memo]
    by (cases "fst (getTokenCreationTime hist (mint t) memo)") (auto simp: truthyTime_def)
  then show ?thesis
    by (simp add: age_minutes)
qed

text \<open>A buy 3660 seconds after the creation of the token is discarded.\<close>

lemma age_filter_late_swap:
  "fst (parseSwapTransaction default_config example_history example_late_swap ''whale1'' Map.empty) = None"
proof -
  let ?t = "\<lparr>fromUserAccount = Some ''pool'', toUserAccount = Some ''whale1'',
             mint = ''TOKEN'', tokenAmount = Fin 1000000\<rparr>"
  have a: "tx_type example_late_swap = ''SWAP''" and b: "transactionError example_late_swap = None"
    by (simp_all add: example_late_swap_def example_swap_def)
  have c: "findTokenTransfer ''whale1'' (tokenTransfers example_late_swap) = Some (True, ?t)"
    by (simp add: example_late_swap_def example_swap_def WRAPPED_SOL_def sameAccount_def)
  show ?thesis
    using age_filter_characterisation [OF a b c, of default_config example_history Map.empty]
    by (simp add: getTokenCreationTime_def example_history_def default_config_def
          example_late_swap_def example_swap_def)
qed

text \<open>
  Claim C8 says that a buy is discarded when the age of the token, \<open>timestamp - creationTime\<close>,
  exceeds the configured maximum, that a buy of unknown creation time passes and that a
  sell is never filtered.  The first part fails in the minute after the maximum.  The
  creation time of \<open>TOKEN\<close> is known, the maximum is 60 minutes, and \<open>example_swap\<close> buys the
  token 3601 seconds after its creation, one second past the maximum.  The parser
  computes an age of 60 whole minutes, which does not exceed 60, and returns the buy.
\<close>

theorem token_age_filter_passes_old_token:
  "fst (getTokenCreationTime example_history ''TOKEN'' Map.empty) = Some 1700000000
   \<and> MAX_TOKEN_AGE_MINUTES default_config = 60
   \<and> timestamp example_swap - 1700000000 = 3601
   \<and> (timestamp example_swap - 1700000000) div 60 = 60
   \<and> map_option (\<lambda>p. (p_type p, p_tokenMint p))
        (fst (parseSwapTransaction default_config example_history example_swap ''whale1'' Map.empty))
       = Some (Buy, ''TOKEN'')"
  by (simp add: example_defs parser_defs)

section \<open>The filters at the threshold\<close>

text \<open>
  Claim C9.  \<open>shouldNotifyBuy\<close> holds exactly when the value is at least the configured
  minimum; for finite numbers that is the order of the rationals.  With the default
  minimum 1000 it is false at 999.99 and true at 1000.  \<open>shouldNotifySell\<close> is true.
\<close>

theorem shouldNotify_filter:
  "shouldNotifyBuy c v = js_ge v (MIN_BUY_VALUE_USD c)
   \<and> shouldNotifyBuy (c\<lparr>MIN_BUY_VALUE_USD := Fin m\<rparr>) (Fin x) = (m \<le> x)
   \<and> MIN_BUY_VALUE_USD default_config = Fin 1000
   \<and> shouldNotifyBuy default_config (Fin (99999 / 100)) = False
   \<and> shouldNotifyBuy default_config (Fin 1000) = True
   \<and> shouldNotifySell = True"
  by (simp add: shouldNotifyBuy_def shouldNotifySell_def default_config_def)

section \<open>Selling without an open position\<close>

text \<open>
  Claim C10.  When no row of \<open>positions\<close> is open for the wallet and token of a sell,
  \<open>getOpenPosition\<close> finds nothing and \<open>recordSellTransaction\<close> returns without an error and
  without writing: the store it leaves is the store it was given.
\<close>

theorem recordSell_without_open_position:
  assumes "\<forall>r \<in> set (positions d).
             wallet_address r = s_walletAddress data \<and> token_mint r = s_tokenMint data \<longrightarrow> \<not> is_open r"
  shows "getOpenPosition d (s_walletAddress data) (s_tokenMint data) = None
         \<and> recordSellTransaction d data = Inr d"
proof -
  have "filter (isOpenFor (s_walletAddress data) (s_tokenMint data)) (positions d) = []"
    using assms by (auto simp: filter_empty_conv isOpenFor_def)
  then have "getOpenPosition d (s_walletAddress data) (s_tokenMint data) = None"
    by (simp add: getOpenPosition_def)
  then show ?thesis
    by (simp add: recordSellTransaction_def)
qed

theorem recordSell_without_open_position_witness:
  "getOpenPosition example_closed_db (s_walletAddress example_sell) (s_tokenMint example_sell) = None
   \<and> recordSellTransaction example_closed_db example_sell = Inr example_closed_db"
  by (rule recordSell_without_open_position)
     (simp add: example_closed_db_def example_position_def example_sell_def)

section \<open>Marking a signature as processed\<close>

text \<open>
  Claim C3, amended.  \<open>markSignatureProcessed\<close> is a plain insert.  For a signature that the
  table \<open>processed_signatures\<close> already holds, the store refuses the insert and the function
  throws that error; nothing is written, and the iteration of the poll that made the
  call throws with its state unchanged.  For a signature the table does not hold, the
  row is appended.
\<close>

theorem markSignatureProcessed_insert:
  "(sig \<in> ps_signature ` set (processed_signatures (db st)) \<longrightarrow>
      markSignatureProcessed (db st) sig w = Inl (UniqueViolation ''processed_signatures'')
      \<and> markAndContinue sig w st = Thrown (DbError (UniqueViolation ''processed_signatures'')) st)
   \<and> (sig \<notin> ps_signature ` set (processed_signatures (db st)) \<longrightarrow>
      markSignatureProcessed (db st) sig w =
        Inr ((db st)\<lparr>processed_signatures :=
               processed_signatures (db st) @ [\<lparr>ps_signature = sig, ps_wallet_address = w\<rparr>]\<rparr>))"
  by (auto simp: markSignatureProcessed_def markAndContinue_def)

text \<open>Marking \<open>S1\<close> a second time throws.\<close>

theorem markSignatureProcessed_insert_counterexample:
  "isSignatureProcessed example_closed_db ''S1'' = True
   \<and> markSignatureProcessed example_closed_db ''S1'' ''W1''
       = Inl (UniqueViolation ''processed_signatures'')"
  by (simp add: markSignatureProcessed_def isSignatureProcessed_def example_closed_db_def)

theorem markSignatureProcessed_insert_witness:
  "markSignatureProcessed (db example_state) ''S1'' ''W1'' = Inl (UniqueViolation ''processed_signatures'')
   \<and> markAndContinue ''S1'' ''W1'' example_state
       = Thrown (DbError (UniqueViolation ''processed_signatures'')) example_state
   \<and> markSignatureProcessed (db example_state) ''S9'' ''W1'' =
        Inr ((db example_state)\<lparr>processed_signatures :=
               processed_signatures (db example_state) @ [\<lparr>ps_signature = ''S9'', ps_wallet_address = ''W1''\<rparr>]\<rparr>)"
proof -
  have a: "''S1'' \<in> ps_signature ` set (processed_signatures (db example_state))"
    by (simp add: example_state_def example_closed_db_def)
  have b: "''S9'' \<notin> ps_signature ` set (processed_signatures (db example_state))"
    by (simp add: example_state_def example_closed_db_def)
  show ?thesis
    using markSignatureProcessed_insert [of "''S1''" example_state "''W1''"]
          markSignatureProcessed_insert [of "''S9''" example_state "''W1''"] a b
    by blast
qed

section \<open>Profit and loss of a closed position\<close>





section \<open>Open positions of a wallet and token\<close>

lemma isOpenFor_closePosition: "\<not> isOpenFor w t (closePosition p data r)"
  by (simp add: isOpenFor_def closePosition_def Let_def)

lemma open_after_close:
  "length (filter (isOpenFor w t) (map (\<lambda>r. if id_pos r = i then closePosition p data r else r) rows))
     \<le> length (filter (isOpenFor w t) rows)"
  by (induction rows) (auto simp: isOpenFor_closePosition)

lemma openRows_recordSell:
  "recordSellTransaction d data = Inr d' \<Longrightarrow> length (openRows w t d') \<le> length (openRows w t d)"
  by (auto simp: recordSellTransaction_def openRows_def open_after_close
        simp del: length_filter_map split: option.splits)

lemma openRows_recordBuy:
  assumes "recordBuyTransaction d b = Inr d'"
  shows "length (openRows w t d') =
           length (openRows w t d) + (if w = b_walletAddress b \<and> t = b_tokenMint b then 1 else 0)"
  using assms
  by (auto simp: recordBuyTransaction_def openRows_def isOpenFor_def split: if_splits)

lemma openRows_guard:
  "getOpenPosition d w t = None \<Longrightarrow> openRows w t d = []"
  by (simp add: getOpenPosition_def openRows_def mostRecent_None)

lemma apply_op_invariant:
  assumes inv: "\<And>w t. length (openRows w t d) \<le> 1"
    and guard: "case oper of
                  RecordBuy b \<Rightarrow> getOpenPosition d (b_walletAddress b) (b_tokenMint b) = None
                | RecordSell s \<Rightarrow> True"
  shows "length (openRows w t (apply_op d oper)) \<le> 1"
proof (cases oper)
  case (RecordBuy b)
  show ?thesis
  proof (cases "recordBuyTransaction d b")
    case (Inl e)
    then show ?thesis using RecordBuy inv by (simp add: apply_op_def)
  next
    case (Inr d')
    have "openRows (b_walletAddress b) (b_tokenMint b) d = []"
      using guard RecordBuy by (simp add: openRows_guard)
    then show ?thesis
      using RecordBuy Inr inv [of w t] openRows_recordBuy [OF Inr, of w t]
      by (auto simp: apply_op_def split: if_splits)
  qed
next
  case (RecordSell s)
  show ?thesis
  proof (cases "recordSellTransaction d s")
    case (Inl e)
    then show ?thesis using RecordSell inv by (simp add: apply_op_def)
  next
    case (Inr d')
    then show ?thesis
      using RecordSell inv [of w t] openRows_recordSell [OF Inr, of w t]
      by (simp add: apply_op_def)
  qed
qed

lemma run_ops_invariant:
  "(\<And>w t. length (openRows w t d) \<le> 1) \<Longrightarrow> buys_guarded d ops
   \<Longrightarrow> length (openRows w t (run_ops d ops)) \<le> 1"
proof (induction ops arbitrary: d)
  case Nil
  then show ?case by simp
next
  case (Cons oper rest)
  have "length (openRows w' t' (apply_op d oper)) \<le> 1" for w' t'
    using Cons.prems by (intro apply_op_invariant) auto
  then show ?case
    using Cons.IH [of "apply_op d oper"] Cons.prems(2) by simp
qed

text \<open>
  Claim C1, amended.  Start from the empty store and issue buys and sells in any order,
  provided that every buy is issued when \<open>getOpenPosition\<close> finds no open position for
  its wallet and token.  Then, for every wallet and token, at most one row of
  \<open>positions\<close> is open.  \<open>recordBuyTransaction\<close> itself does not look for an open position:
  whenever it succeeds, its wallet and token have one open row more than before.
  \<open>getOpenPosition\<close> finds nothing exactly when the wallet and token have no open row, and
  otherwise returns one of their open rows, of the greatest \<open>buy_timestamp\<close> among them.
\<close>

theorem at_most_one_open:
  "(buys_guarded empty_database ops \<longrightarrow> length (openRows w t (run_ops empty_database ops)) \<le> 1)
   \<and> (recordBuyTransaction d b = Inr d' \<longrightarrow>
        length (openRows (b_walletAddress b) (b_tokenMint b) d')
          = length (openRows (b_walletAddress b) (b_tokenMint b) d) + 1)
   \<and> (getOpenPosition d w t = None) = (openRows w t d = [])
   \<and> (getOpenPosition d w t = Some p \<longrightarrow>
        p \<in> set (openRows w t d)
        \<and> (\<forall>r \<in> set (openRows w t d). buy_timestamp r \<le> buy_timestamp p))"
proof -
  have 1: "length (openRows w t (run_ops empty_database ops)) \<le> 1"
    if "buys_guarded empty_database ops"
    using that by (intro run_ops_invariant) (simp_all add: openRows_def empty_database_def)
  have 2: "length (openRows (b_walletAddress b) (b_tokenMint b) d')
          = length (openRows (b_walletAddress b) (b_tokenMint b) d) + 1"
    if "recordBuyTransaction d b = Inr d'"
    using openRows_recordBuy [OF that, of "b_walletAddress b" "b_tokenMint b"] by simp
  have 3: "(getOpenPosition d w t = None) = (openRows w t d = [])"
    by (simp add: getOpenPosition_def openRows_def mostRecent_None)
  have 4: "p \<in> set (openRows w t d) \<and> (\<forall>r \<in> set (openRows w t d). buy_timestamp r \<le> buy_timestamp p)"
    if "getOpenPosition d w t = Some p"
    using that mostRecent_mem [of "openRows w t d" p] mostRecent_max [of "openRows w t d" p]
    by (auto simp: getOpenPosition_def openRows_def)
  show ?thesis
    using 1 2 3 4 by blast
qed

lemmas store_defs =
  recordBuyTransaction_def recordSellTransaction_def getOpenPosition_def isOpenFor_def
  closePosition_def sellMetrics_def apply_op_def openRows_def empty_database_def
  example_buy_def example_sell_def example_second_buy_def

text \<open>Two buys of the same token in two transactions leave two open rows.\<close>

theorem at_most_one_open_counterexample:
  "length (openRows ''W1'' ''M1''
             (run_ops empty_database [RecordBuy example_buy, RecordBuy example_second_buy])) = 2"
  by (simp add: store_defs)

text \<open>A buy, its sell and a second buy leave one open row.  After two buys without a sell
  the second buy has added a row to the one that was open, and \<open>getOpenPosition\<close> returns
  the row of the later buy.\<close>

theorem at_most_one_open_witness:
  "length (openRows ''W1'' ''M1''
             (run_ops empty_database
                [RecordBuy example_buy, RecordSell example_sell, RecordBuy example_second_buy])) \<le> 1
   \<and> length (openRows ''W1'' ''M1''
               (run_ops empty_database [RecordBuy example_buy, RecordBuy example_second_buy]))
       = length (openRows ''W1'' ''M1'' (run_ops empty_database [RecordBuy example_buy])) + 1
   \<and> (\<exists>p. getOpenPosition
               (run_ops empty_database [RecordBuy example_buy, RecordBuy example_second_buy])
               ''W1'' ''M1'' = Some p
           \<and> buy_signature p = ''S5''
           \<and> p \<in> set (openRows ''W1'' ''M1''
                   (run_ops empty_database [RecordBuy example_buy, RecordBuy example_second_buy])))"
proof -
  let ?one = "run_ops empty_database [RecordBuy example_buy]"
  let ?two = "run_ops empty_database [RecordBuy example_buy, RecordBuy example_second_buy]"
  have g: "buys_guarded empty_database
          [RecordBuy example_buy, RecordSell example_sell, RecordBuy example_second_buy]"
    by (simp add: store_defs Let_def)
  have b: "recordBuyTransaction ?one example_second_buy = Inr ?two"
    by (simp add: store_defs)
  have w: "b_walletAddress example_second_buy = ''W1''" "b_tokenMint example_second_buy = ''M1''"
    by (simp_all add: example_second_buy_def example_buy_def)
  obtain p where p: "getOpenPosition ?two ''W1'' ''M1'' = Some p" "buy_signature p = ''S5''"
    by (simp add: store_defs)
  from at_most_one_open
         [of "[RecordBuy example_buy, RecordSell example_sell, RecordBuy example_second_buy]"
             "''W1''" "''M1''" ?one example_second_buy ?two] g b w
  have 1: "length (openRows ''W1'' ''M1''
             (run_ops empty_database
                [RecordBuy example_buy, RecordSell example_sell, RecordBuy example_second_buy])) \<le> 1"
    and 2: "length (openRows ''W1'' ''M1'' ?two) = length (openRows ''W1'' ''M1'' ?one) + 1"
    by simp_all
  from at_most_one_open [of "[]" "''W1''" "''M1''" ?two example_buy ?two p] p(1)
  have 3: "p \<in> set (openRows ''W1'' ''M1'' ?two)"
    by blast
  from 1 2 3 p show ?thesis by blast
qed

section \<open>The walk over a fetched batch\<close>

text \<open>The loop runs over the batch oldest first and stops at the first transaction that
  carries the last processed signature: it handles the transactions in front of it, which
  are the older ones.\<close>

lemma processLoop_takeWhile:
  "processLoop env w l lastProcessed txs st =
     processLoop env w l None (takeWhile (\<lambda>tx. \<not> reachedLastProcessed lastProcessed tx) txs) st"
proof (induction txs arbitrary: st)
  case Nil
  show ?case by simp
next
  case (Cons tx rest)
  show ?case
  proof (cases "reachedLastProcessed lastProcessed tx")
    case True
    then show ?thesis by simp
  next
    case False
    then show ?thesis
      by (simp add: Cons.IH reachedLastProcessed_def split: outcome.splits)
  qed
qed

lemmas poll_defs =
  processWallet_def handleTransaction_def handleBuy_def handleSell_def markAndContinue_def
  notify_def reachedLastProcessed_def isSignatureProcessed_def markSignatureProcessed_def
  recordBuyTransaction_def shouldNotifyBuy_def
  example_env_def initial_state_def example_tx_a_def example_tx_b_def always_delivered_def
  empty_database_def

lemma first_poll:
  "after_first_poll =
     \<lparr>db = \<lparr>positions = [], next_id = 0,
             processed_signatures =
               [\<lparr>ps_signature = ''A'', ps_wallet_address = ''whale1''\<rparr>,
                \<lparr>ps_signature = ''B'', ps_wallet_address = ''whale1''\<rparr>]\<rparr>,
      lastProcessedSignatures = [''whale1'' \<mapsto> ''B''], cache = Map.empty, sent = []\<rparr>"
  by (simp add: after_first_poll_def poll_defs parseSwapTransaction_def)

lemma second_poll:
  "after_second_poll =
     \<lparr>db = \<lparr>positions = [], next_id = 0,
             processed_signatures =
               [\<lparr>ps_signature = ''A'', ps_wallet_address = ''whale1''\<rparr>,
                \<lparr>ps_signature = ''B'', ps_wallet_address = ''whale1''\<rparr>]\<rparr>,
      lastProcessedSignatures = [''whale1'' \<mapsto> ''S1''], cache = Map.empty, sent = []\<rparr>"
  by (simp add: after_second_poll_def first_poll poll_defs example_swap_def)

lemma third_poll:
  "after_third_poll = after_second_poll"
  unfolding after_third_poll_def second_poll
  by (simp add: poll_defs example_swap_def)

lemma fresh_poll:
  "map buy_signature (positions (db
     (processWallet example_env (Some [example_swap, example_tx_b, example_tx_a]) ''whale1'' None
        initial_state))) = [''S1'']"
  by (simp add: poll_defs example_defs parser_defs)

text \<open>When no iteration throws, a poll of a non-empty batch ends with the newest signature
  of the batch as the last processed signature.\<close>

lemma processWallet_watermark:
  assumes "processLoop env w l (lastProcessedSignatures st w) (rev txs) st = Done st'"
    and "txs \<noteq> []"
  shows "lastProcessedSignatures (processWallet env (Some txs) w l st) w = Some (signature (hd txs))"
  using assms by (simp add: processWallet_def Let_def)

text \<open>
  Claim C2 says that a poll handles the fetched transactions that are newer than the last
  processed signature and skips the others.  Three polls show what the loop does instead.
  After the first poll the last processed signature
  of \<open>whale1\<close> is \<open>B\<close>.  The second poll fetches the newer swap \<open>S1\<close> in front of \<open>B\<close> and
  \<open>A\<close>; its walk meets \<open>A\<close>, stops at \<open>B\<close> and never reaches \<open>S1\<close>: no position is opened
  and \<open>S1\<close> is not marked as processed, while the last processed signature moves to \<open>S1\<close>.
  A third poll of the same batch changes nothing.  Without a last processed signature the
  same batch opens the position of \<open>S1\<close>.
\<close>

theorem watermark_walk_three_polls:
  "lastProcessedSignatures after_first_poll ''whale1'' = Some ''B''
   \<and> positions (db after_second_poll) = []
   \<and> isSignatureProcessed (db after_second_poll) ''S1'' = False
   \<and> isSignatureProcessed (db after_second_poll) ''A'' = True
   \<and> lastProcessedSignatures after_second_poll ''whale1'' = Some ''S1''
   \<and> after_third_poll = after_second_poll
   \<and> map buy_signature (positions (db
         (processWallet example_env (Some [example_swap, example_tx_b, example_tx_a]) ''whale1'' None
            initial_state))) = [''S1'']"
  by (simp add: first_poll second_poll third_poll fresh_poll isSignatureProcessed_def)

end
